theory Spec2Isabelle
  imports Complex_Main
begin

section \<open>Text primitives\<close>

text \<open>
  Python \<open>str\<close> values are modelled as \<open>string\<close> (lists of 8-bit characters). The
  development covers ASCII text: case mapping acts on \<open>A-Z\<close>/\<open>a-z\<close>, \<open>\d\<close> is \<open>0-9\<close>
  and white space is the ASCII part of what \<open>str.isspace\<close> accepts (tab, line feed,
  vertical tab, form feed, carriage return, the four separators 0x1C-0x1F and the blank).
  Any other byte is an opaque character that no class matches.
\<close>

definition is_space :: "char \<Rightarrow> bool" where
  "is_space c \<longleftrightarrow> (let n = (of_char c :: nat) in (9 \<le> n \<and> n \<le> 13) \<or> (28 \<le> n \<and> n \<le> 32))"

definition is_digit :: "char \<Rightarrow> bool" where
  "is_digit c \<longleftrightarrow> (let n = (of_char c :: nat) in 48 \<le> n \<and> n \<le> 57)"

definition is_upper :: "char \<Rightarrow> bool" where
  "is_upper c \<longleftrightarrow> (let n = (of_char c :: nat) in 65 \<le> n \<and> n \<le> 90)"

definition is_lower :: "char \<Rightarrow> bool" where
  "is_lower c \<longleftrightarrow> (let n = (of_char c :: nat) in 97 \<le> n \<and> n \<le> 122)"

definition is_roman :: "char \<Rightarrow> bool" where
  \<comment> \<open>the character class \<open>[ivxlcdm]\<close>\<close>
  "is_roman c \<longleftrightarrow> c \<in> set ''ivxlcdm''"

definition lower_char :: "char \<Rightarrow> char" where
  "lower_char c = (if is_upper c then char_of (of_char c + (32::nat)) else c)"

definition upper_char :: "char \<Rightarrow> char" where
  "upper_char c = (if is_lower c then char_of (of_char c - (32::nat)) else c)"

definition lower :: "string \<Rightarrow> string" where
  \<comment> \<open>\<open>str.lower()\<close>\<close>
  "lower s = map lower_char s"

definition upper :: "string \<Rightarrow> string" where
  \<comment> \<open>\<open>str.upper()\<close>\<close>
  "upper s = map upper_char s"

definition lstrip :: "string \<Rightarrow> string" where
  "lstrip s = dropWhile is_space s"

definition rstrip :: "string \<Rightarrow> string" where
  "rstrip s = rev (dropWhile is_space (rev s))"

definition strip :: "string \<Rightarrow> string" where
  \<comment> \<open>\<open>str.strip()\<close>\<close>
  "strip s = rstrip (lstrip s)"

fun split_ws_aux :: "string \<Rightarrow> string \<Rightarrow> string list" where
  "split_ws_aux cur [] = (if cur = [] then [] else [cur])"
| "split_ws_aux cur (c # cs) =
     (if is_space c then (if cur = [] then split_ws_aux [] cs else cur # split_ws_aux [] cs)
      else split_ws_aux (cur @ [c]) cs)"

definition split_ws :: "string \<Rightarrow> string list" where
  \<comment> \<open>\<open>str.split()\<close> without arguments: the maximal runs of non-blank characters\<close>
  "split_ws s = split_ws_aux [] s"

fun split_on :: "char \<Rightarrow> string \<Rightarrow> string list" where
  \<comment> \<open>\<open>str.split(sep)\<close> for a one-character separator; \<open>''''.split(sep) = ['''']\<close>\<close>
  "split_on sep [] = [[]]"
| "split_on sep (c # cs) =
     (if c = sep then [] # split_on sep cs
      else (case split_on sep cs of [] \<Rightarrow> [[c]] | w # ws \<Rightarrow> (c # w) # ws))"

fun join :: "string \<Rightarrow> string list \<Rightarrow> string" where
  \<comment> \<open>\<open>sep.join(xs)\<close>\<close>
  "join sep [] = []"
| "join sep [x] = x"
| "join sep (x # y # ys) = x @ sep @ join sep (y # ys)"

definition startswith :: "string \<Rightarrow> string \<Rightarrow> bool" where
  \<comment> \<open>\<open>s.startswith(p)\<close>\<close>
  "startswith s p \<longleftrightarrow> take (length p) s = p"

fun contains :: "string \<Rightarrow> string \<Rightarrow> bool" where
  \<comment> \<open>\<open>contains k s\<close> is Python's \<open>k in s\<close> on strings\<close>
  "contains k [] = (k = [])"
| "contains k (c # cs) = (startswith (c # cs) k \<or> contains k cs)"

definition any_in :: "string list \<Rightarrow> string \<Rightarrow> bool" where
  \<comment> \<open>\<open>any(keyword in s for keyword in ks)\<close>\<close>
  "any_in ks s \<longleftrightarrow> list_ex (\<lambda>k. contains k s) ks"

definition apostrophe :: string where
  \<comment> \<open>the single quote that the messages put around a section name\<close>
  "apostrophe = [CHR 0x27]"

definition is_alpha :: "char \<Rightarrow> bool" where
  "is_alpha c \<longleftrightarrow> is_upper c \<or> is_lower c"

fun title_aux :: "bool \<Rightarrow> string \<Rightarrow> string" where
  \<comment> \<open>the flag says whether the previous character was a letter\<close>
  "title_aux prev [] = []"
| "title_aux prev (c # cs) =
     (if is_alpha c then (if prev then lower_char c else upper_char c) # title_aux True cs
      else c # title_aux False cs)"

definition title :: "string \<Rightarrow> string" where
  \<comment> \<open>\<open>str.title()\<close>\<close>
  "title s = title_aux False s"

definition capitalize :: "string \<Rightarrow> string" where
  \<comment> \<open>\<open>str.capitalize()\<close>\<close>
  "capitalize s = (case s of [] \<Rightarrow> [] | c # cs \<Rightarrow> upper_char c # lower cs)"

definition truthy :: "string option \<Rightarrow> bool" where
  \<comment> \<open>truth value of an \<open>Optional[str]\<close>: neither \<open>None\<close> nor the empty string\<close>
  "truthy x \<longleftrightarrow> (case x of None \<Rightarrow> False | Some s \<Rightarrow> s \<noteq> [])"

fun show_nat :: "nat \<Rightarrow> string" where
  \<comment> \<open>\<open>str(n)\<close> for a non-negative integer\<close>
  "show_nat n =
     (if n < 10 then [char_of (48 + n)] else show_nat (n div 10) @ [char_of (48 + n mod 10)])"

definition show_int :: "int \<Rightarrow> string" where
  \<comment> \<open>\<open>str(i)\<close>, the text an f-string inserts for an integer\<close>
  "show_int i = (if i < 0 then CHR ''-'' # show_nat (nat (- i)) else show_nat (nat i))"

fun dict_set :: "'k \<Rightarrow> 'v \<Rightarrow> ('k \<times> 'v) list \<Rightarrow> ('k \<times> 'v) list" where
  \<comment> \<open>\<open>d[k] = v\<close> on a Python dict kept as an association list in insertion order:
      an existing key keeps its place, a new key goes to the end; \<open>map_of\<close> reads it\<close>
  "dict_set k v [] = [(k, v)]"
| "dict_set k v ((k', v') # kvs) =
     (if k' = k then (k, v) # kvs else (k', v') # dict_set k v kvs)"

fun index_of :: "'a \<Rightarrow> 'a list \<Rightarrow> nat" where
  \<comment> \<open>position of the first occurrence, as in \<open>{x: i for i, x in enumerate(xs)}\<close> for a
      list without repetitions; \<open>length xs\<close> when absent\<close>
  "index_of x [] = 0"
| "index_of x (y # ys) = (if x = y then 0 else Suc (index_of x ys))"

section \<open>Data model (models.py)\<close>

datatype section_type =
    TITLE | AUTHORS | AFFILIATION | ABSTRACT | KEYWORDS | INTRODUCTION | RELATED_WORK
  | LITERATURE_REVIEW | METHODOLOGY | RESULTS | DISCUSSION | CONCLUSION | FUTURE_WORK
  | ACKNOWLEDGMENTS | REFERENCES | APPENDIX | UNKNOWN

record FontRule =
  font_family :: string
  font_size :: int
  bold :: bool
  italic :: bool
  alignment :: string

text \<open>
  \<open>Section\<close> refers to itself through its optional list of subsections, so it is a
  datatype with selectors rather than a record. \<open>model_copy(deep=True)\<close> is the identity
  on values; the assignments to a field of the copy are the \<open>set_\<close> functions below.
\<close>

datatype Section = Section
  (sec_id: string)
  (sec_type: section_type)
  (content: string)
  (original_heading: "string option")
  (formatted_heading: "string option")
  (word_count: int)
  (font_rule: "FontRule option")
  (heading_font_rule: "FontRule option")
  (subsections: "Section list option")
  (is_subsection: bool)

datatype py_value = PyNone | PyBool bool | PyInt int | PyStr string

record ParsedDocument =
  sections :: "Section list"
  metadata :: "(string \<times> py_value) list"

record FormattedDocument = ParsedDocument +
  compliance_score :: rat

fun section_type_value :: "section_type \<Rightarrow> string" where
  \<comment> \<open>\<open>SectionType.value\<close>\<close>
  "section_type_value TITLE = ''Title''"
| "section_type_value AUTHORS = ''Authors''"
| "section_type_value AFFILIATION = ''Affiliation''"
| "section_type_value ABSTRACT = ''Abstract''"
| "section_type_value KEYWORDS = ''Keywords''"
| "section_type_value INTRODUCTION = ''Introduction''"
| "section_type_value RELATED_WORK = ''Related Work''"
| "section_type_value LITERATURE_REVIEW = ''Literature Review''"
| "section_type_value METHODOLOGY = ''Methodology''"
| "section_type_value RESULTS = ''Results''"
| "section_type_value DISCUSSION = ''Discussion''"
| "section_type_value CONCLUSION = ''Conclusion''"
| "section_type_value FUTURE_WORK = ''Future Work''"
| "section_type_value ACKNOWLEDGMENTS = ''Acknowledgments''"
| "section_type_value REFERENCES = ''References''"
| "section_type_value APPENDIX = ''Appendix''"
| "section_type_value UNKNOWN = ''Unknown''"

datatype IssueSeverity = HIGH | MEDIUM | LOW

record Issue =
  issue_type :: string
  issue_section :: "string option"
  severity :: IssueSeverity
  message :: string
  current :: py_value
  expected :: py_value

record Fix =
  fix_section_id :: string
  fix_type :: string
  original :: "string option"
  formatted :: "string option"
  reason :: string

record ComplianceScore =
  score :: rat
  breakdown :: "(string \<times> rat) list"
  weights :: "(string \<times> rat) list"

fun set_content :: "string \<Rightarrow> Section \<Rightarrow> Section" where
  "set_content c (Section i t _ oh fh wc fr hfr subs isub) = Section i t c oh fh wc fr hfr subs isub"

fun set_formatted_heading :: "string option \<Rightarrow> Section \<Rightarrow> Section" where
  "set_formatted_heading fh (Section i t c oh _ wc fr hfr subs isub) =
     Section i t c oh fh wc fr hfr subs isub"

fun set_font_rule :: "FontRule option \<Rightarrow> Section \<Rightarrow> Section" where
  "set_font_rule fr (Section i t c oh fh wc _ hfr subs isub) =
     Section i t c oh fh wc fr hfr subs isub"

fun set_heading_font_rule :: "FontRule option \<Rightarrow> Section \<Rightarrow> Section" where
  "set_heading_font_rule hfr (Section i t c oh fh wc fr _ subs isub) =
     Section i t c oh fh wc fr hfr subs isub"

fun set_subsections :: "Section list option \<Rightarrow> Section \<Rightarrow> Section" where
  "set_subsections subs (Section i t c oh fh wc fr hfr _ isub) =
     Section i t c oh fh wc fr hfr subs isub"

section \<open>Section type classifier (parser.py)\<close>

text \<open>
  The four \<open>re.sub\<close> calls of \<open>detect_section_type\<close> are anchored at the start of the
  string, so each removes at most one prefix. In every pattern a greedy repetition is
  followed by an atom that no character of the repeated class matches (or by atoms that
  may match the empty string), so the leftmost-greedy match is the one that takes each
  run whole.
\<close>

definition sub_roman_prefix :: "string \<Rightarrow> string" where
  \<comment> \<open>\<open>re.sub(r'^[ivxlcdm]+\.\s+', '', s)\<close>\<close>
  "sub_roman_prefix s =
     (let r = takeWhile is_roman s; rest = dropWhile is_roman s in
      if r \<noteq> [] \<and> startswith rest ''.'' \<and> takeWhile is_space (tl rest) \<noteq> []
      then dropWhile is_space (tl rest) else s)"

definition sub_arabic_prefix :: "string \<Rightarrow> string" where
  \<comment> \<open>\<open>re.sub(r'^\d+\.\s+', '', s)\<close>\<close>
  "sub_arabic_prefix s =
     (let r = takeWhile is_digit s; rest = dropWhile is_digit s in
      if r \<noteq> [] \<and> startswith rest ''.'' \<and> takeWhile is_space (tl rest) \<noteq> []
      then dropWhile is_space (tl rest) else s)"

definition sub_word_number_prefix :: "string \<Rightarrow> string \<Rightarrow> string" where
  \<comment> \<open>\<open>re.sub(r'^WORD\s+\d+:?\s*', '', s)\<close> for the literal \<open>WORD\<close>\<close>
  "sub_word_number_prefix word s =
     (if startswith s word then
        (let r1 = drop (length word) s;
             r2 = dropWhile is_space r1;
             r3 = dropWhile is_digit r2;
             r4 = (if startswith r3 '':'' then tl r3 else r3)
         in if takeWhile is_space r1 \<noteq> [] \<and> takeWhile is_digit r2 \<noteq> []
            then dropWhile is_space r4 else s)
      else s)"

definition heading_clean :: "string \<Rightarrow> string" where
  "heading_clean heading =
     strip (sub_word_number_prefix ''part'' (sub_word_number_prefix ''section''
       (sub_arabic_prefix (sub_roman_prefix (strip (lower heading))))))"

definition discussion_keywords :: "string list" where
  "discussion_keywords = [''discussion'', ''analysis'', ''threat'', ''impact'', ''implication'',
     ''broader'', ''what individuals can do'', ''recommendations'', ''solutions'']"

definition classify_clean :: "string \<Rightarrow> section_type" where
  \<comment> \<open>the chain of \<open>if ... return\<close> statements, in source order\<close>
  "classify_clean h =
    (if any_in [''abstract'', ''summary''] h then ABSTRACT
     else if any_in [''keywords'', ''index terms'', ''key words''] h then KEYWORDS
     else if contains ''intro'' h \<and> length h < 15 then INTRODUCTION
     else if contains ''introduction'' h then INTRODUCTION
     else if any_in [''methodology'', ''methods'', ''approach'', ''method''] h then METHODOLOGY
     else if any_in [''results'', ''findings'', ''experiments'', ''experimental results'',
                     ''data'', ''key finding''] h then RESULTS
     else if any_in [''conclusion'', ''concluding remarks'', ''conclusions'', ''ending'',
                     ''final thought'', ''final remarks'', ''closing''] h then CONCLUSION
     else if any_in [''references'', ''bibliography'', ''works cited''] h then REFERENCES
     else if any_in [''related work'', ''related works'', ''background'', ''backgrounds''] h
       then RELATED_WORK
     else if any_in [''literature review'', ''literature''] h then LITERATURE_REVIEW
     else if any_in discussion_keywords h then DISCUSSION
     else if any_in [''future work'', ''future works'', ''future research'', ''what next''] h
       then FUTURE_WORK
     else if any_in [''acknowledgment'', ''acknowledgments'', ''acknowledgement'',
                     ''acknowledgements''] h then ACKNOWLEDGMENTS
     else if any_in [''appendix'', ''appendices''] h then APPENDIX
     else if any_in [''authors'', ''author''] h then AUTHORS
     else if any_in [''affiliation'', ''affiliations'', ''institution''] h then AFFILIATION
     else UNKNOWN)"

definition detect_section_type :: "string \<Rightarrow> string \<Rightarrow> section_type" where
  \<comment> \<open>the body text is a parameter of the source function that it never reads\<close>
  "detect_section_type heading body = classify_clean (heading_clean heading)"


section \<open>Citation converter (citation_converter.py)\<close>

subsection \<open>Regular expressions as prefix matchers\<close>

text \<open>
  A matcher takes the text at the current position and returns the text left after the
  match, or \<open>None\<close>. In each pattern of this module a greedy repetition is followed by
  an atom that no character of the repeated class matches, and the optional group
  \<open>(?:\\s+et\\s+al\\.)?\<close> is followed by atoms that cannot match where the group begins
  once the group itself has started to match; so backtracking never finds a second way
  to match and each matcher is a function.
\<close>

definition eat_char :: "char \<Rightarrow> string \<Rightarrow> string option" where
  "eat_char c s = (case s of [] \<Rightarrow> None | x # xs \<Rightarrow> if x = c then Some xs else None)"

definition eat_one :: "(char \<Rightarrow> bool) \<Rightarrow> string \<Rightarrow> string option" where
  "eat_one P s = (case s of [] \<Rightarrow> None | x # xs \<Rightarrow> if P x then Some xs else None)"

definition eat_plus :: "(char \<Rightarrow> bool) \<Rightarrow> string \<Rightarrow> string option" where
  \<comment> \<open>\<open>C+\<close>: a non-empty maximal run of the class\<close>
  "eat_plus P s = (if takeWhile P s = [] then None else Some (dropWhile P s))"

definition eat_star :: "(char \<Rightarrow> bool) \<Rightarrow> string \<Rightarrow> string" where
  \<comment> \<open>\<open>C*\<close>\<close>
  "eat_star P s = dropWhile P s"

definition eat_str :: "string \<Rightarrow> string \<Rightarrow> string option" where
  "eat_str lit s = (if startswith s lit then Some (drop (length lit) s) else None)"

definition eat_opt :: "(string \<Rightarrow> string option) \<Rightarrow> string \<Rightarrow> string" where
  \<comment> \<open>\<open>X?\<close>\<close>
  "eat_opt m s = (case m s of None \<Rightarrow> s | Some r \<Rightarrow> r)"

definition bullet :: string where
  \<comment> \<open>the bullet glyph U+2022 in UTF-8\<close>
  "bullet = [CHR 0xE2, CHR 0x80, CHR 0xA2]"

definition m_bracket_number :: "string \<Rightarrow> string option" where
  \<comment> \<open>\<open>\\[\\d+\\]\<close>\<close>
  "m_bracket_number s =
     Option.bind (eat_char CHR ''['' s) (\<lambda>r. Option.bind (eat_plus is_digit r) (eat_char CHR '']''))"

definition m_number_dot :: "string \<Rightarrow> string option" where
  \<comment> \<open>\<open>\\d+\\.\<close>\<close>
  "m_number_dot s = Option.bind (eat_plus is_digit s) (eat_char CHR ''.'')"

definition m_bullet :: "string \<Rightarrow> string option" where
  \<comment> \<open>the class \<open>[\<bullet>\\-*]\<close>\<close>
  "m_bullet s =
     (case eat_str bullet s of Some r \<Rightarrow> Some r
      | None \<Rightarrow> (case eat_char CHR ''-'' s of Some r \<Rightarrow> Some r | None \<Rightarrow> eat_char CHR ''*'' s))"

definition m_author_start :: "string \<Rightarrow> string option" where
  \<comment> \<open>\<open>[A-Z][a-z]+,\\s+[A-Z]\<close>\<close>
  "m_author_start s =
     Option.bind (eat_one is_upper s) (\<lambda>r1. Option.bind (eat_plus is_lower r1)
       (\<lambda>r2. Option.bind (eat_char CHR '','' r2) (\<lambda>r3. Option.bind (eat_plus is_space r3)
         (eat_one is_upper))))"

definition is_citation_start :: "string \<Rightarrow> bool" where
  "is_citation_start line \<longleftrightarrow>
     (if m_bracket_number line \<noteq> None then True
      else if m_number_dot line \<noteq> None then True
      else if startswith line bullet \<or> startswith line ''-'' \<or> startswith line ''*'' then True
      else if m_author_start line \<noteq> None then True
      else False)"

definition sub_prefix :: "(string \<Rightarrow> string option) \<Rightarrow> string \<Rightarrow> string" where
  \<comment> \<open>\<open>re.sub(r'^X\\s*', '', line)\<close> for a prefix matcher \<open>X\<close>\<close>
  "sub_prefix m line = (case m line of None \<Rightarrow> line | Some r \<Rightarrow> eat_star is_space r)"

definition remove_citation_prefix :: "string \<Rightarrow> string" where
  "remove_citation_prefix line =
     strip (sub_prefix m_bullet (sub_prefix m_number_dot (sub_prefix m_bracket_number line)))"

subsection \<open>Segmenting the References body\<close>

fun segment_lines :: "string list \<Rightarrow> string list \<Rightarrow> string list \<Rightarrow> string list" where
  \<comment> \<open>the \<open>for line in lines\<close> loop and the flush after it; arguments: the lines left,
      \<open>current_citation\<close>, \<open>citations\<close>\<close>
  "segment_lines [] cur cits = (if cur \<noteq> [] then cits @ [join '' '' cur] else cits)"
| "segment_lines (l # ls) cur cits =
     (let line = strip l in
      if line = [] then
        (if cur \<noteq> [] then segment_lines ls [] (cits @ [join '' '' cur])
         else segment_lines ls cur cits)
      else if is_citation_start line then
        (if cur \<noteq> [] then
           segment_lines ls [remove_citation_prefix line] (cits @ [join '' '' cur])
         else segment_lines ls (cur @ [remove_citation_prefix line]) cits)
      else segment_lines ls (cur @ [line]) cits)"

function re_split_sentences :: "string \<Rightarrow> string \<Rightarrow> string list" where
  \<comment> \<open>\<open>re.split(r'\\.\\s+(?=[A-Z])', s)\<close>; the first argument is the piece being read\<close>
  "re_split_sentences cur [] = [cur]"
| "re_split_sentences cur (c # cs) =
     (if c = CHR ''.'' \<and> takeWhile is_space cs \<noteq> []
         \<and> (case dropWhile is_space cs of [] \<Rightarrow> False | d # _ \<Rightarrow> is_upper d)
      then cur # re_split_sentences [] (dropWhile is_space cs)
      else re_split_sentences (cur @ [c]) cs)"
  by pat_completeness auto
termination
  by (relation "measure (\<lambda>(cur, s). length s)") (auto simp: length_dropWhile_le less_Suc_eq_le)

definition sentence_fallback :: "string \<Rightarrow> string list" where
  \<comment> \<open>the fallback branch of \<open>_extract_citations\<close>\<close>
  "sentence_fallback references_content =
     map (\<lambda>c. strip c @ ''.'')
       (filter (\<lambda>c. strip c \<noteq> []) (re_split_sentences [] references_content))"

definition extract_citations :: "string \<Rightarrow> string list" where
  "extract_citations references_content =
     (let citations = segment_lines (split_on CHR 0x0A references_content) [] [] in
      if citations = [] \<and> strip references_content \<noteq> []
      then sentence_fallback references_content
      else citations)"


subsection \<open>Converter state and numbering\<close>

record CitationConverter =
  citation_map :: "(string \<times> int) list"
  next_citation_number :: int

definition new_converter :: CitationConverter where
  \<comment> \<open>\<open>__init__\<close>\<close>
  "new_converter = \<lparr>citation_map = [], next_citation_number = 1\<rparr>"

fun build_loop :: "string list \<Rightarrow> CitationConverter \<Rightarrow> CitationConverter" where
  "build_loop [] st = st"
| "build_loop (citation # rest) st =
     build_loop rest
       (st\<lparr>citation_map := dict_set (strip (take 100 citation)) (next_citation_number st)
               (citation_map st),
          next_citation_number := next_citation_number st + 1\<rparr>)"

definition build_citation_map :: "string list \<Rightarrow> CitationConverter \<Rightarrow> CitationConverter" where
  "build_citation_map citations st =
     build_loop citations (st\<lparr>citation_map := [], next_citation_number := 1\<rparr>)"

definition bracketed :: "int \<Rightarrow> string" where
  \<comment> \<open>the f-string \<open>"[{n}]"\<close>\<close>
  "bracketed n = ''['' @ show_int n @ '']''"

fun enumerate_from :: "int \<Rightarrow> 'a list \<Rightarrow> (int \<times> 'a) list" where
  "enumerate_from i [] = []"
| "enumerate_from i (x # xs) = (i, x) # enumerate_from (i + 1) xs"

definition format_references_section :: "string list \<Rightarrow> string" where
  "format_references_section citations =
     join [CHR 0x0A, CHR 0x0A]
       (map (\<lambda>(i, citation). bracketed i @ '' '' @ citation) (enumerate_from 1 citations))"

definition get_citation_number :: "string \<Rightarrow> CitationConverter \<Rightarrow> string \<times> CitationConverter" where
  \<comment> \<open>returns the marker text and the converter after the possible insertion\<close>
  "get_citation_number citation_text st =
     (let key = strip citation_text in
      case map_of (citation_map st) key of
        Some n \<Rightarrow> (bracketed n, st)
      | None \<Rightarrow>
          (bracketed (next_citation_number st),
           st\<lparr>citation_map := dict_set key (next_citation_number st) (citation_map st),
              next_citation_number := next_citation_number st + 1\<rparr>))"

definition get_citation_count :: "CitationConverter \<Rightarrow> nat" where
  "get_citation_count st = length (citation_map st)"

subsection \<open>Rewriting in-text markers\<close>

definition m_name_et_al :: "string \<Rightarrow> string option" where
  \<comment> \<open>\<open>[A-Z][a-z]+(?:\\s+et\\s+al\\.)?\<close>, group 1 of the three patterns\<close>
  "m_name_et_al s =
     Option.bind (eat_one is_upper s) (\<lambda>r1. Option.bind (eat_plus is_lower r1)
       (\<lambda>r2. Some (eat_opt (\<lambda>r. Option.bind (eat_plus is_space r)
          (\<lambda>a. Option.bind (eat_str ''et'' a)
          (\<lambda>b. Option.bind (eat_plus is_space b) (eat_str ''al.'')))) r2)))"

definition m_year :: "string \<Rightarrow> string option" where
  \<comment> \<open>\<open>\\d{4}\<close>\<close>
  "m_year s =
     Option.bind (eat_one is_digit s) (\<lambda>a. Option.bind (eat_one is_digit a)
       (\<lambda>b. Option.bind (eat_one is_digit b) (eat_one is_digit)))"

definition m_enclosed_cite :: "char \<Rightarrow> char \<Rightarrow> string \<Rightarrow> string option" where
  \<comment> \<open>\<open>OPEN([A-Z][a-z]+(?:\\s+et\\s+al\\.)?),?\\s+\\d{4}CLOSE\<close> with round or square brackets\<close>
  "m_enclosed_cite opn cls s =
     Option.bind (eat_char opn s) (\<lambda>r1. Option.bind (m_name_et_al r1)
       (\<lambda>r2. Option.bind (eat_plus is_space (eat_opt (eat_char CHR '','') r2))
       (\<lambda>r3. Option.bind (m_year r3) (eat_char cls))))"

definition m_author_year :: "string \<Rightarrow> string option" where
  \<comment> \<open>\<open>([A-Z][a-z]+(?:\\s+et\\s+al\\.)?)\\s+\\(\\d{4}\\)\<close>\<close>
  "m_author_year s =
     Option.bind (m_name_et_al s) (\<lambda>r1. Option.bind (eat_plus is_space r1)
       (\<lambda>r2. Option.bind (eat_char CHR ''('' r2)
       (\<lambda>r3. Option.bind (m_year r3) (eat_char CHR '')''))))"

definition group1 :: "string \<Rightarrow> string" where
  \<comment> \<open>\<open>m.group(1)\<close> of a match of \<open>m_author_year\<close>\<close>
  "group1 m = (case m_name_et_al m of None \<Rightarrow> [] | Some r \<Rightarrow> take (length m - length r) m)"

fun re_sub :: "(string \<Rightarrow> string option) \<Rightarrow> (string \<Rightarrow> 's \<Rightarrow> string \<times> 's) \<Rightarrow> nat \<Rightarrow> 's \<Rightarrow> string
    \<Rightarrow> string \<times> 's" where
  \<comment> \<open>\<open>re.sub(pattern, repl, text)\<close> with a callable \<open>repl\<close> that reads and writes the
      state: scan from the left, replace each match (none of the patterns matches the empty
      string), go on after it. The counter is the number of matched characters still to pass.\<close>
  "re_sub m repl skip st [] = ([], st)"
| "re_sub m repl skip st (c # cs) =
     (if skip > 0 then re_sub m repl (skip - 1) st cs
      else case m (c # cs) of
        None \<Rightarrow> (let (out, st') = re_sub m repl 0 st cs in (c # out, st'))
      | Some rest \<Rightarrow>
          (let n = length (c # cs) - length rest;
               (r, st1) = repl (take n (c # cs)) st;
               (out, st2) = re_sub m repl (n - 1) st1 cs
           in (r @ out, st2)))"

definition convert_intext_citations :: "Section \<Rightarrow> CitationConverter \<Rightarrow> Section \<times> CitationConverter" where
  "convert_intext_citations sec st =
     (let (c1, st1) = re_sub (m_enclosed_cite CHR ''('' CHR '')'') get_citation_number 0 st (content sec);
          (c2, st2) = re_sub (m_enclosed_cite CHR ''['' CHR '']'') get_citation_number 0 st1 c1;
          (c3, st3) = re_sub m_author_year
                        (\<lambda>m s. let (n, s') = get_citation_number m s in (group1 m @ '' '' @ n, s'))
                        0 st2 c2
      in (set_content c3 sec, st3))"

subsection \<open>\<open>convert_references\<close>\<close>

fun find_references :: "nat \<Rightarrow> Section list \<Rightarrow> (nat \<times> Section) option" where
  \<comment> \<open>the first section of type References with its index\<close>
  "find_references i [] = None"
| "find_references i (s # ss) =
     (if sec_type s = REFERENCES then Some (i, s) else find_references (i + 1) ss)"

fun convert_loop :: "nat \<Rightarrow> string list \<Rightarrow> nat \<Rightarrow> Section list \<Rightarrow> CitationConverter
    \<Rightarrow> Section list \<times> CitationConverter" where
  "convert_loop references_index citations i [] st = ([], st)"
| "convert_loop references_index citations i (s # ss) st =
     (if i = references_index then
        (let (out, st') = convert_loop references_index citations (i + 1) ss st
         in (set_content (format_references_section citations) s # out, st'))
      else
        (let (s', st1) = convert_intext_citations s st;
             (out, st2) = convert_loop references_index citations (i + 1) ss st1
         in (s' # out, st2)))"

definition convert_references :: "Section list \<Rightarrow> CitationConverter \<Rightarrow> Section list \<times> CitationConverter" where
  "convert_references secs st =
     (case find_references 0 secs of
        None \<Rightarrow> (secs, st)
      | Some (references_index, references_section) \<Rightarrow>
          (let citations = extract_citations (content references_section);
               st1 = build_citation_map citations st
           in convert_loop references_index citations 0 secs st1))"


section \<open>Formatting rules engine (formatter.py)\<close>

definition times_rule :: "int \<Rightarrow> bool \<Rightarrow> bool \<Rightarrow> string \<Rightarrow> FontRule" where
  "times_rule pt b i al =
     \<lparr>font_family = ''Times New Roman'', font_size = pt, bold = b, italic = i, alignment = al\<rparr>"

definition font_rules :: "(section_type \<times> FontRule) list" where
  \<comment> \<open>\<open>_get_default_rules()["font_rules"]\<close>\<close>
  "font_rules =
    [(TITLE, times_rule 24 True False ''center''),
     (AUTHORS, times_rule 10 False False ''center''),
     (AFFILIATION, times_rule 10 False True ''center''),
     (ABSTRACT, times_rule 9 False False ''justify''),
     (KEYWORDS, times_rule 9 False True ''justify''),
     (INTRODUCTION, times_rule 10 False False ''justify''),
     (RELATED_WORK, times_rule 10 False False ''justify''),
     (LITERATURE_REVIEW, times_rule 10 False False ''justify''),
     (METHODOLOGY, times_rule 10 False False ''justify''),
     (RESULTS, times_rule 10 False False ''justify''),
     (DISCUSSION, times_rule 10 False False ''justify''),
     (CONCLUSION, times_rule 10 False False ''justify''),
     (FUTURE_WORK, times_rule 10 False False ''justify''),
     (ACKNOWLEDGMENTS, times_rule 10 False False ''justify''),
     (REFERENCES, times_rule 10 False False ''justify''),
     (APPENDIX, times_rule 10 False False ''justify''),
     (UNKNOWN, times_rule 10 False False ''justify'')]"

definition section_order :: "section_type list" where
  \<comment> \<open>\<open>_get_default_rules()["section_order"]\<close>, the sixteen canonical slots\<close>
  "section_order =
    [TITLE, AUTHORS, AFFILIATION, ABSTRACT, KEYWORDS, INTRODUCTION, RELATED_WORK,
     LITERATURE_REVIEW, METHODOLOGY, RESULTS, DISCUSSION, CONCLUSION, FUTURE_WORK,
     ACKNOWLEDGMENTS, REFERENCES, APPENDIX]"

definition apply_font_rules :: "Section \<Rightarrow> Section" where
  "apply_font_rules sec =
     (case map_of font_rules (sec_type sec) of
        Some r \<Rightarrow> set_font_rule (Some r) sec
      | None \<Rightarrow> set_font_rule (map_of font_rules UNKNOWN) sec)"

subsection \<open>Canonical reordering\<close>

definition bucket_add :: "Section \<Rightarrow> (section_type \<times> Section list) list
    \<Rightarrow> (section_type \<times> Section list) list" where
  \<comment> \<open>one round of the loop that fills \<open>sections_by_type\<close>\<close>
  "bucket_add sec d =
     (let d' = (if map_of d (sec_type sec) = None then dict_set (sec_type sec) [] d else d)
      in dict_set (sec_type sec)
           (case map_of d' (sec_type sec) of None \<Rightarrow> [sec] | Some b \<Rightarrow> b @ [sec]) d')"

fun sections_by_type :: "Section list \<Rightarrow> (section_type \<times> Section list) list
    \<Rightarrow> (section_type \<times> Section list) list" where
  "sections_by_type [] d = d"
| "sections_by_type (sec # rest) d = sections_by_type rest (bucket_add sec d)"

fun reorder_loop :: "section_type list \<Rightarrow> (section_type \<times> Section list) list \<Rightarrow> Section list
    \<Rightarrow> Section list" where
  \<comment> \<open>the loop over \<open>section_order\<close> that extends \<open>reordered\<close>\<close>
  "reorder_loop [] d reordered = reordered"
| "reorder_loop (t # ts) d reordered =
     reorder_loop ts d (case map_of d t of None \<Rightarrow> reordered | Some b \<Rightarrow> reordered @ b)"

definition reorder_sections :: "Section list \<Rightarrow> Section list" where
  "reorder_sections secs = reorder_loop section_order (sections_by_type secs []) []"

subsection \<open>Numbering and headings\<close>

definition numbered_sections :: "section_type list" where
  "numbered_sections =
    [INTRODUCTION, RELATED_WORK, LITERATURE_REVIEW, METHODOLOGY, RESULTS, DISCUSSION,
     CONCLUSION, FUTURE_WORK, ACKNOWLEDGMENTS, REFERENCES, APPENDIX]"

definition heading_font_rule_main :: FontRule where
  "heading_font_rule_main = times_rule 10 True False ''left''"

definition subheading_font_rule :: FontRule where
  "subheading_font_rule = times_rule 10 False True ''left''"

definition roman_table :: "(nat \<times> string) list" where
  "roman_table =
    [(1000, ''M''), (900, ''CM''), (500, ''D''), (400, ''CD''), (100, ''C''), (90, ''XC''),
     (50, ''L''), (40, ''XL''), (10, ''X''), (9, ''IX''), (5, ''V''), (4, ''IV''), (1, ''I'')]"

fun to_roman_loop :: "(nat \<times> string) list \<Rightarrow> nat \<Rightarrow> string \<Rightarrow> string" where
  \<comment> \<open>one table entry per round: the inner \<open>for\<close> appends the symbol \<open>num // val[i]\<close>
      times and leaves \<open>num % val[i]\<close>. The source stops as soon as \<open>num\<close> is 0, which the
      last entry (value 1) always reaches; the remaining rounds append nothing.\<close>
  "to_roman_loop [] num roman_num = roman_num"
| "to_roman_loop ((v, symb) # rest) num roman_num =
     to_roman_loop rest (num mod v) (roman_num @ concat (replicate (num div v) symb))"

definition to_roman :: "nat \<Rightarrow> string" where
  "to_roman num = to_roman_loop roman_table num []"

definition clean_numbered_heading :: "string \<Rightarrow> string" where
  \<comment> \<open>the heading of a numbered section without its old numbering, with the
      "final thoughts" special case\<close>
  "clean_numbered_heading heading =
     (let clean_heading = strip (sub_arabic_prefix (sub_roman_prefix (lower heading)))
      in if contains ''final thought'' clean_heading \<or> contains ''final remark'' clean_heading
         then ''conclusion'' else clean_heading)"

fun number_subsections :: "nat \<Rightarrow> Section list \<Rightarrow> Section list" where
  \<comment> \<open>letters \<open>chr(65 + i)\<close>; the model's characters end at 255\<close>
  "number_subsections i [] = []"
| "number_subsections i (subsection # rest) =
     (let letter = [char_of (65 + i)];
          formatted_subsection =
            set_heading_font_rule (Some subheading_font_rule)
              (set_formatted_heading
                 (Some (if truthy (original_heading subsection)
                        then letter @ ''. '' @ title (the (original_heading subsection))
                        else letter @ ''. Subsection''))
                 subsection)
      in formatted_subsection # number_subsections (i + 1) rest)"

definition number_main_section :: "nat \<Rightarrow> Section \<Rightarrow> Section" where
  \<comment> \<open>the branch \<open>section.type in numbered_sections\<close>\<close>
  "number_main_section roman_counter sec =
     (let roman_numeral = to_roman roman_counter;
          formatted_heading =
            (if truthy (original_heading sec)
             then roman_numeral @ ''. '' @ upper (clean_numbered_heading (the (original_heading sec)))
             else roman_numeral @ ''. '' @ upper (section_type_value (sec_type sec)));
          s1 = set_heading_font_rule (Some heading_font_rule_main)
                 (set_formatted_heading (Some formatted_heading) sec)
      in case subsections s1 of
           None \<Rightarrow> s1
         | Some subs \<Rightarrow> if subs = [] then s1 else set_subsections (Some (number_subsections 0 subs)) s1)"

definition head_plain_section :: "Section \<Rightarrow> Section" where
  \<comment> \<open>the \<open>else\<close> branch: the types that carry no Roman numeral\<close>
  "head_plain_section sec =
     (if sec_type sec = ABSTRACT then
        set_heading_font_rule (Some heading_font_rule_main) (set_formatted_heading (Some ''ABSTRACT'') sec)
      else if sec_type sec = KEYWORDS then
        set_heading_font_rule (Some heading_font_rule_main) (set_formatted_heading (Some ''INDEX TERMS'') sec)
      else if sec_type sec = AUTHORS then set_formatted_heading None sec
      else if sec_type sec = AFFILIATION then set_formatted_heading None sec
      else if sec_type sec = TITLE then set_formatted_heading None sec
      else if truthy (original_heading sec) then
        set_heading_font_rule (Some heading_font_rule_main)
          (set_formatted_heading (Some (upper (the (original_heading sec)))) sec)
      else if sec_type sec \<noteq> TITLE then
        set_heading_font_rule (Some heading_font_rule_main)
          (set_formatted_heading (Some (upper (section_type_value (sec_type sec)))) sec)
      else sec)"

fun numbering_loop :: "nat \<Rightarrow> Section list \<Rightarrow> Section list" where
  "numbering_loop roman_counter [] = []"
| "numbering_loop roman_counter (sec # rest) =
     (if sec_type sec \<in> set numbered_sections
      then number_main_section roman_counter sec # numbering_loop (roman_counter + 1) rest
      else head_plain_section sec # numbering_loop roman_counter rest)"

definition apply_numbering :: "Section list \<Rightarrow> Section list" where
  "apply_numbering secs = numbering_loop 1 secs"

subsection \<open>\<open>IEEEFormatter.format\<close>\<close>

definition format :: "ParsedDocument \<Rightarrow> FormattedDocument" where
  \<comment> \<open>a fresh converter is built inside, as in the source\<close>
  "format document =
     (let formatted_sections = map apply_font_rules (sections document);
          (converted, citation_converter) = convert_references formatted_sections new_converter;
          reordered = reorder_sections converted;
          numbered = apply_numbering reordered
      in \<lparr>sections = numbered,
          metadata =
            dict_set ''citation_count'' (PyInt (int (get_citation_count citation_converter)))
              (dict_set ''citations_converted'' (PyBool True)
                (dict_set ''ieee_compliant'' (PyBool True)
                  (dict_set ''formatted'' (PyBool True) (metadata document)))),
          compliance_score = 0\<rparr>)"


section \<open>Issue detector (issue_detector.py)\<close>

definition REQUIRED_SECTIONS :: "section_type list" where
  \<comment> \<open>a Python set; the list fixes one iteration order, which the source leaves open\<close>
  "REQUIRED_SECTIONS =
     [ABSTRACT, KEYWORDS, INTRODUCTION, METHODOLOGY, RESULTS, CONCLUSION, REFERENCES]"

definition IEEE_SECTION_ORDER :: "section_type list" where
  "IEEE_SECTION_ORDER =
    [TITLE, AUTHORS, AFFILIATION, ABSTRACT, KEYWORDS, INTRODUCTION, RELATED_WORK,
     LITERATURE_REVIEW, METHODOLOGY, RESULTS, DISCUSSION, CONCLUSION, FUTURE_WORK,
     ACKNOWLEDGMENTS, REFERENCES, APPENDIX]"

definition ABSTRACT_MIN_WORDS :: int where
  "ABSTRACT_MIN_WORDS = 150"

definition ABSTRACT_MAX_WORDS :: int where
  "ABSTRACT_MAX_WORDS = 250"

definition sections_needing_headings :: "section_type list" where
  "sections_needing_headings =
    [ABSTRACT, KEYWORDS, INTRODUCTION, RELATED_WORK, LITERATURE_REVIEW, METHODOLOGY, RESULTS,
     DISCUSSION, CONCLUSION, FUTURE_WORK, ACKNOWLEDGMENTS, REFERENCES, APPENDIX]"

definition detect_missing_sections :: "'a ParsedDocument_scheme \<Rightarrow> Issue list" where
  "detect_missing_sections document =
     map (\<lambda>required_section.
            \<lparr>issue_type = ''missing_required_section'',
             issue_section = Some (section_type_value required_section),
             severity = HIGH,
             message = ''Required section '' @ apostrophe @ section_type_value required_section
                         @ apostrophe @ '' is missing'',
             current = PyNone,
             expected = PyStr (section_type_value required_section)\<rparr>)
       (filter (\<lambda>required_section. required_section \<notin> sec_type ` set (sections document))
          REQUIRED_SECTIONS)"

definition expected_position :: "section_type \<Rightarrow> int" where
  \<comment> \<open>\<open>expected_positions.get(t, -1)\<close>\<close>
  "expected_position t =
     (if t \<in> set IEEE_SECTION_ORDER then int (index_of t IEEE_SECTION_ORDER) else - 1)"

definition out_of_order_issue :: "Section \<Rightarrow> section_type \<Rightarrow> Issue" where
  \<comment> \<open>the \<open>Issue\<close> for a section that comes after the section type \<open>previous\<close>\<close>
  "out_of_order_issue sec previous =
     \<lparr>issue_type = ''section_out_of_order'',
      issue_section = Some (section_type_value (sec_type sec)),
      severity = MEDIUM,
      message = ''Section '' @ apostrophe @ section_type_value (sec_type sec)
        @ apostrophe @ '' appears after '' @ apostrophe @ section_type_value previous
        @ apostrophe @ '' but should come before it'',
      current = PyStr (section_type_value (sec_type sec)),
      expected = PyStr (''Should appear before '' @ section_type_value previous)\<rparr>"

fun order_loop :: "int \<Rightarrow> Section list \<Rightarrow> Issue list" where
  \<comment> \<open>the first argument is \<open>last_position\<close>\<close>
  "order_loop last_position [] = []"
| "order_loop last_position (sec # rest) =
     (if sec_type sec = UNKNOWN then order_loop last_position rest
      else
        (let expected_pos = expected_position (sec_type sec);
             previous_section_types =
               filter (\<lambda>st. expected_position st = last_position) IEEE_SECTION_ORDER;
             found =
               (if expected_pos \<noteq> - 1 \<and> expected_pos < last_position then
                  (case previous_section_types of
                     [] \<Rightarrow> []
                   | previous # _ \<Rightarrow> [out_of_order_issue sec previous])
                else [])
         in found @ order_loop (if expected_pos \<noteq> - 1 then max last_position expected_pos
                                else last_position) rest))"

definition detect_section_order_issues :: "'a ParsedDocument_scheme \<Rightarrow> Issue list" where
  "detect_section_order_issues document = order_loop (- 1) (sections document)"

definition word_count_issue :: "int \<Rightarrow> Issue" where
  \<comment> \<open>the \<open>Issue\<close> both branches of the word-count check build\<close>
  "word_count_issue wc =
     \<lparr>issue_type = ''abstract_word_count_violation'',
      issue_section = Some (section_type_value ABSTRACT),
      severity = MEDIUM,
      message = ''Abstract has '' @ show_int wc @ '' words but should have ''
                  @ show_int ABSTRACT_MIN_WORDS @ ''-'' @ show_int ABSTRACT_MAX_WORDS @ '' words'',
      current = PyInt wc,
      expected = PyStr (show_int ABSTRACT_MIN_WORDS @ ''-'' @ show_int ABSTRACT_MAX_WORDS
                          @ '' words'')\<rparr>"

fun abstract_loop :: "Section list \<Rightarrow> Issue list" where
  \<comment> \<open>\<open>for abstract in abstract_sections\<close>\<close>
  "abstract_loop [] = []"
| "abstract_loop (abstract # rest) =
     (if word_count abstract < ABSTRACT_MIN_WORDS
        then word_count_issue (word_count abstract) # abstract_loop rest
      else if word_count abstract > ABSTRACT_MAX_WORDS
        then word_count_issue (word_count abstract) # abstract_loop rest
      else abstract_loop rest)"

definition detect_abstract_word_count_issues :: "'a ParsedDocument_scheme \<Rightarrow> Issue list" where
  "detect_abstract_word_count_issues document =
     (let abstract_sections = filter (\<lambda>s. sec_type s = ABSTRACT) (sections document)
      in if abstract_sections = [] then [] else abstract_loop abstract_sections)"

definition detect_missing_headings :: "'a ParsedDocument_scheme \<Rightarrow> Issue list" where
  "detect_missing_headings document =
     map (\<lambda>sec.
            \<lparr>issue_type = ''missing_section_heading'',
             issue_section = Some (section_type_value (sec_type sec)),
             severity = LOW,
             message = ''Section '' @ apostrophe @ section_type_value (sec_type sec)
                         @ apostrophe @ '' is missing a heading'',
             current = PyNone,
             expected = PyStr (''Heading for '' @ section_type_value (sec_type sec))\<rparr>)
       (filter (\<lambda>sec. sec_type sec \<in> set sections_needing_headings
                    \<and> (\<not> truthy (original_heading sec)
                         \<or> \<not> truthy (map_option strip (original_heading sec))))
          (sections document))"

definition detect_issues :: "'a ParsedDocument_scheme \<Rightarrow> Issue list" where
  "detect_issues document =
     detect_missing_sections document @ detect_section_order_issues document
       @ detect_abstract_word_count_issues document @ detect_missing_headings document"

section \<open>Compliance scorer (compliance_scorer.py)\<close>

text \<open>
  Python floats are modelled as exact rationals: the component scores and the weights are
  the decimal literals of the source, and sums, products and quotients are exact. Binary
  rounding of the IEEE doubles is outside the model.
\<close>

definition WEIGHTS :: "(string \<times> rat) list" where
  "WEIGHTS =
    [(''required_sections'', 30 / 100),
     (''section_order'', 25 / 100),
     (''abstract_compliance'', 20 / 100),
     (''heading_hierarchy'', 15 / 100),
     (''formatting_consistency'', 10 / 100)]"

definition score_required_sections :: "'a ParsedDocument_scheme \<Rightarrow> rat" where
  "score_required_sections document =
     (let present_required =
            length (filter (\<lambda>t. t \<in> sec_type ` set (sections document)) REQUIRED_SECTIONS);
          total_required = length REQUIRED_SECTIONS
      in if total_required = 0 then 1 else of_nat present_required / of_nat total_required)"

definition score_section_order :: "'a ParsedDocument_scheme \<Rightarrow> Issue list \<Rightarrow> rat" where
  "score_section_order document issues =
     (if filter (\<lambda>issue. issue_type issue = ''section_out_of_order'') issues \<noteq> []
      then 7 / 10 else 1)"

definition score_abstract_compliance :: "'a ParsedDocument_scheme \<Rightarrow> rat" where
  "score_abstract_compliance document =
     (case filter (\<lambda>s. sec_type s = ABSTRACT) (sections document) of
        [] \<Rightarrow> 0
      | abstract # _ \<Rightarrow>
          if ABSTRACT_MIN_WORDS \<le> word_count abstract \<and> word_count abstract \<le> ABSTRACT_MAX_WORDS
          then 1 else 6 / 10)"

definition score_heading_hierarchy :: "'a ParsedDocument_scheme \<Rightarrow> rat" where
  "score_heading_hierarchy document =
     (let sections_with_heading_requirement =
            filter (\<lambda>s. sec_type s \<in> set sections_needing_headings) (sections document);
          properly_formatted =
            length (filter (\<lambda>s. truthy (formatted_heading s)
                                \<and> truthy (map_option strip (formatted_heading s)))
                      sections_with_heading_requirement)
      in if sections_with_heading_requirement = [] then 1
         else of_nat properly_formatted / of_nat (length sections_with_heading_requirement))"

definition score_formatting_consistency :: "'a ParsedDocument_scheme \<Rightarrow> Issue list \<Rightarrow> rat" where
  "score_formatting_consistency document issues =
     (let high_severity_issues = filter (\<lambda>issue. severity issue = HIGH) issues;
          penalty = of_nat (length high_severity_issues) * (2 / 10)
      in max 0 (1 - penalty))"

definition py_round2 :: "rat \<Rightarrow> rat" where
  \<comment> \<open>\<open>round(x, 2)\<close>: to the nearest multiple of 1/100, a tie going to the even one\<close>
  "py_round2 x =
     (let y = x * 100; f = \<lfloor>y\<rfloor>; d = y - of_int f;
          r = (if d < 1 / 2 then f else if d > 1 / 2 then f + 1
               else if even f then f else f + 1)
      in of_int r / 100)"

definition component :: "(string \<times> rat) list \<Rightarrow> string \<Rightarrow> rat" where
  \<comment> \<open>\<open>breakdown[component]\<close>; the breakdown built by \<open>calculate\<close> has every key of
      \<open>WEIGHTS\<close>, so the missing-key case does not arise\<close>
  "component d k = (case map_of d k of None \<Rightarrow> 0 | Some v \<Rightarrow> v)"

definition calculate :: "'a ParsedDocument_scheme \<Rightarrow> Issue list \<Rightarrow> ComplianceScore" where
  "calculate document issues =
     (let breakdown =
            [(''required_sections'', score_required_sections document),
             (''section_order'', score_section_order document issues),
             (''abstract_compliance'', score_abstract_compliance document),
             (''heading_hierarchy'', score_heading_hierarchy document),
             (''formatting_consistency'', score_formatting_consistency document issues)];
          total_score = sum_list (map (\<lambda>(c, w). component breakdown c * w) WEIGHTS);
          total_score_percentage = total_score * 100
      in \<lparr>score = py_round2 total_score_percentage, breakdown = breakdown, weights = WEIGHTS\<rparr>)"


section \<open>Change tracker (change_tracker.py)\<close>

fun by_id :: "Section list \<Rightarrow> (string \<times> Section) list \<Rightarrow> (string \<times> Section) list" where
  \<comment> \<open>\<open>{s.id: s for s in sections}\<close>: a later section with the same id replaces the value\<close>
  "by_id [] d = d"
| "by_id (s # ss) d = by_id ss (dict_set (sec_id s) s d)"

fun positions :: "nat \<Rightarrow> Section list \<Rightarrow> (string \<times> nat) list \<Rightarrow> (string \<times> nat) list" where
  \<comment> \<open>\<open>{s.id: idx for idx, s in enumerate(sections)}\<close>\<close>
  "positions idx [] d = d"
| "positions idx (s # ss) d = positions (idx + 1) ss (dict_set (sec_id s) idx d)"

definition reordering_fix :: "string \<Rightarrow> nat \<Rightarrow> nat \<Rightarrow> Section \<Rightarrow> Fix" where
  "reordering_fix section_id before_pos after_pos sec =
     \<lparr>fix_section_id = section_id,
      fix_type = ''section_reordering'',
      original = Some (''Position '' @ show_nat (before_pos + 1)),
      formatted = Some (''Position '' @ show_nat (after_pos + 1)),
      reason = ''Section '' @ apostrophe @ section_type_value (sec_type sec) @ apostrophe
                 @ '' reordered to match IEEE conference format standard sequence''\<rparr>"

fun reordering_loop :: "(string \<times> nat) list \<Rightarrow> (string \<times> nat) list \<Rightarrow> Section list \<Rightarrow> Fix list" where
  \<comment> \<open>\<open>for section_id in after_positions\<close>; the first argument is what is left of
      \<open>after_positions\<close>. \<open>next(...)\<close> finds a section because every key of
      \<open>after_positions\<close> is the id of a section of the after document.\<close>
  "reordering_loop [] before_positions after_sections = []"
| "reordering_loop ((section_id, after_pos) # rest) before_positions after_sections =
     (case map_of before_positions section_id of
        None \<Rightarrow> []
      | Some before_pos \<Rightarrow>
          if before_pos \<noteq> after_pos then
            (case find (\<lambda>s. sec_id s = section_id) after_sections of
               None \<Rightarrow> []
             | Some sec \<Rightarrow> [reordering_fix section_id before_pos after_pos sec])
          else [])
     @ reordering_loop rest before_positions after_sections"

definition track_section_reordering :: "'a ParsedDocument_scheme \<Rightarrow> 'b ParsedDocument_scheme \<Rightarrow> Fix list" where
  "track_section_reordering document_before document_after =
     reordering_loop (positions 0 (sections document_after) [])
       (positions 0 (sections document_before) []) (sections document_after)"

definition track_heading_changes :: "Section \<Rightarrow> Section \<Rightarrow> Fix list" where
  "track_heading_changes before_section after_section =
     (if \<not> truthy (original_heading before_section) \<and> truthy (formatted_heading after_section) then
        [\<lparr>fix_section_id = sec_id after_section,
          fix_type = ''heading_added'',
          original = None,
          formatted = formatted_heading after_section,
          reason = ''Added IEEE-compliant heading for ''
                     @ section_type_value (sec_type after_section) @ '' section''\<rparr>]
      else if truthy (original_heading before_section) \<and> truthy (formatted_heading after_section) then
        (if original_heading before_section \<noteq> formatted_heading after_section then
           [\<lparr>fix_section_id = sec_id after_section,
             fix_type = ''heading_formatting'',
             original = original_heading before_section,
             formatted = formatted_heading after_section,
             reason = ''Applied IEEE heading format: Roman numerals, ALL CAPS, and bold styling''\<rparr>]
         else [])
      else [])"

definition describe_font :: "FontRule \<Rightarrow> string" where
  "describe_font r =
     font_family r @ '', '' @ show_int (font_size r) @ ''pt, ''
       @ (if bold r then ''Bold'' else ''Normal'') @ '', ''
       @ (if italic r then ''Italic'' else ''Regular'') @ '', ''
       @ capitalize (alignment r) @ '' aligned''"

definition track_font_changes :: "Section \<Rightarrow> Section \<Rightarrow> Fix list" where
  "track_font_changes before_section after_section =
     (case (font_rule before_section, font_rule after_section) of
        (None, Some r) \<Rightarrow>
          [\<lparr>fix_section_id = sec_id after_section,
            fix_type = ''font_formatting'',
            original = Some ''No font formatting'',
            formatted = Some (describe_font r),
            reason = ''Applied IEEE font rules for ''
                       @ section_type_value (sec_type after_section) @ '' section''\<rparr>]
      | _ \<Rightarrow> [])
     @ (case (heading_font_rule before_section, heading_font_rule after_section) of
        (None, Some heading_font) \<Rightarrow>
          [\<lparr>fix_section_id = sec_id after_section,
            fix_type = ''heading_font_formatting'',
            original = Some ''No heading font formatting'',
            formatted = Some (font_family heading_font @ '', '' @ show_int (font_size heading_font)
                                @ ''pt, Bold''),
            reason = ''Applied IEEE heading font rules: Times New Roman, 10pt, Bold''\<rparr>]
      | _ \<Rightarrow> [])"

definition track_content_changes :: "Section \<Rightarrow> Section \<Rightarrow> Fix list" where
  "track_content_changes before_section after_section =
     (if content before_section \<noteq> content after_section then
        (let before_words = int (length (split_ws (content before_section)));
             after_words = int (length (split_ws (content after_section)));
             word_diff = after_words - before_words
         in if \<bar>word_diff\<bar> > 0 \<or> strip (content before_section) \<noteq> strip (content after_section) then
              [\<lparr>fix_section_id = sec_id after_section,
                fix_type = ''grammar_correction'',
                original = Some (show_int before_words @ '' words''),
                formatted = Some (show_int after_words @ '' words''),
                reason = ''Grammar and spelling corrections applied''
                  @ (if word_diff > 0 then '' (+'' @ show_int word_diff @ '' words)''
                     else if word_diff < 0 then '' ('' @ show_int word_diff @ '' words)''
                     else [])\<rparr>]
            else [])
      else [])"

definition track_section_type_changes :: "Section \<Rightarrow> Section \<Rightarrow> Fix list" where
  "track_section_type_changes before_section after_section =
     (if sec_type before_section \<noteq> sec_type after_section then
        [\<lparr>fix_section_id = sec_id after_section,
          fix_type = ''section_type_correction'',
          original = Some (section_type_value (sec_type before_section)),
          formatted = Some (section_type_value (sec_type after_section)),
          reason = ''Section type detected and corrected based on content and heading keywords''\<rparr>]
      else [])"

fun section_loop :: "(string \<times> Section) list \<Rightarrow> Section list \<Rightarrow> Fix list" where
  \<comment> \<open>\<open>for after_section in document_after.sections\<close>\<close>
  "section_loop before_sections_by_id [] = []"
| "section_loop before_sections_by_id (after_section # rest) =
     (case map_of before_sections_by_id (sec_id after_section) of
        None \<Rightarrow> []
      | Some before_section \<Rightarrow>
          track_heading_changes before_section after_section
          @ track_font_changes before_section after_section
          @ track_content_changes before_section after_section
          @ track_section_type_changes before_section after_section)
     @ section_loop before_sections_by_id rest"

definition track_changes :: "'a ParsedDocument_scheme \<Rightarrow> 'b ParsedDocument_scheme \<Rightarrow> Fix list" where
  \<comment> \<open>\<open>self.fixes\<close> is emptied first, so the result depends on the two documents only\<close>
  "track_changes document_before document_after =
     track_section_reordering document_before document_after
     @ section_loop (by_id (sections document_before) []) (sections document_after)"

section \<open>Auxiliary notions and example documents\<close>

definition ident :: "Section \<Rightarrow> string \<times> section_type" where
  \<comment> \<open>what the pipeline never changes in a section: its id and its type\<close>
  "ident s = (sec_id s, sec_type s)"

definition bucket_of :: "(section_type \<times> Section list) list \<Rightarrow> section_type \<Rightarrow> Section list" where
  \<comment> \<open>the bucket of a type in \<open>sections_by_type\<close>, empty when the key is absent\<close>
  "bucket_of d t = (case map_of d t of None \<Rightarrow> [] | Some b \<Rightarrow> b)"

definition plain_section :: "string \<Rightarrow> section_type \<Rightarrow> string \<Rightarrow> string option \<Rightarrow> int \<Rightarrow> Section" where
  \<comment> \<open>\<open>Section(id=..., type=..., content=..., original_heading=..., word_count=...)\<close>
      with the defaults of the model class for the other fields\<close>
  "plain_section i t c h wc = Section i t c h None wc None None None False"

definition ex_title :: Section where
  "ex_title = plain_section ''s0'' TITLE ''My Paper'' None 2"

definition ex_intro :: Section where
  "ex_intro = plain_section ''s1'' INTRODUCTION ''As shown by (Smith, 2020).'' (Some ''Introduction'') 5"

definition ex_refs1 :: Section where
  "ex_refs1 = plain_section ''s2'' REFERENCES ''Smith, J. (2020). A.'' (Some ''References'') 4"


definition ex_unknown :: Section where
  "ex_unknown = plain_section ''s3'' UNKNOWN ''Some text'' (Some ''Random Section'') 2"

definition ex_results :: Section where
  "ex_results = plain_section ''s5'' RESULTS ''We measured.'' (Some ''Results'') 2"

definition ex_abstract :: "string \<Rightarrow> int \<Rightarrow> Section" where
  "ex_abstract i wc = plain_section i ABSTRACT ''An abstract.'' (Some ''Abstract'') wc"

definition ex_doc :: "Section list \<Rightarrow> ParsedDocument" where
  "ex_doc secs = \<lparr>sections = secs, metadata = []\<rparr>"

section \<open>Dictionaries\<close>

lemma map_of_dict_set: "map_of (dict_set k v d) = (map_of d)(k \<mapsto> v)"
  by (induction d) (auto simp: fun_eq_iff)

lemma keys_dict_set: "fst ` set (dict_set k v d) = insert k (fst ` set d)"
proof (induction d)
  case Nil
  then show ?case by simp
next
  case (Cons a d)
  obtain k' v' where a: "a = (k', v')" by (cases a)
  show ?case unfolding a using Cons.IH by (cases "k' = k") auto
qed

lemma map_of_SomeD_key: "map_of d k = Some v \<Longrightarrow> k \<in> fst ` set d"
  by (induction d) (auto split: if_splits)

section \<open>The classifier evaluates Discussion before five later rules\<close>

text \<open>
  Claim C1 says that the Discussion rule is evaluated last, so that a heading with a
  Discussion keyword and a keyword of any other category is given the other category.
  In \<open>detect_section_type\<close> the Discussion test stands before the tests for Future Work,
  Acknowledgments, Appendix, Authors and Affiliation, although its comment says
  "check this last to avoid conflicts". The heading "Discussion and Future Work"
  holds the keywords \<open>discussion\<close> and \<open>future work\<close> and is classified as Discussion.
\<close>

theorem discussion_shadows_future_work:
  "contains ''discussion'' (heading_clean ''Discussion and Future Work'')
   \<and> contains ''future work'' (heading_clean ''Discussion and Future Work'')
   \<and> detect_section_type ''Discussion and Future Work'' body = DISCUSSION"
  unfolding detect_section_type_def by code_simp

section \<open>Canonical reordering\<close>

lemma map_of_bucket_add:
  "map_of (bucket_add s d) =
     (map_of d)(sec_type s \<mapsto> (case map_of d (sec_type s) of None \<Rightarrow> [s] | Some b \<Rightarrow> b @ [s]))"
  by (auto simp: bucket_add_def map_of_dict_set Let_def fun_eq_iff split: option.splits)

lemma bucket_of_sections_by_type:
  "bucket_of (sections_by_type secs d) t = bucket_of d t @ filter (\<lambda>s. sec_type s = t) secs"
  by (induction secs arbitrary: d)
     (auto simp: bucket_of_def map_of_bucket_add split: option.splits)

lemma reorder_loop_concat:
  "reorder_loop ts d acc = acc @ concat (map (bucket_of d) ts)"
  by (induction ts arbitrary: acc) (auto simp: bucket_of_def split: option.splits)

lemma reorder_sections_eq:
  "reorder_sections secs = concat (map (\<lambda>t. filter (\<lambda>s. sec_type s = t) secs) section_order)"
proof -
  have "bucket_of (sections_by_type secs []) = (\<lambda>t. filter (\<lambda>s. sec_type s = t) secs)"
    by (rule ext) (simp add: bucket_of_sections_by_type, simp add: bucket_of_def)
  then show ?thesis by (simp add: reorder_sections_def reorder_loop_concat)
qed

lemma filter_concat_buckets:
  "distinct ts \<Longrightarrow>
   filter (\<lambda>s. f s = t) (concat (map (\<lambda>u. filter (\<lambda>s. f s = u) xs) ts)) =
     (if t \<in> set ts then filter (\<lambda>s. f s = t) xs else [])"
proof (induction ts)
  case Nil
  then show ?case by simp
next
  case (Cons u ts)
  have "u \<noteq> t \<Longrightarrow> filter (\<lambda>s. f s = t) (filter (\<lambda>s. f s = u) xs) = []"
    by (auto simp: filter_empty_conv)
  moreover have "u \<notin> set ts" "distinct ts" using Cons.prems by auto
  ultimately show ?case using Cons.IH by (auto simp: filter_empty_conv)
qed

lemma set_concat_buckets:
  "set (concat (map (\<lambda>u. filter (\<lambda>s. f s = u) xs) ts)) = {s \<in> set xs. f s \<in> set ts}"
  by (induction ts) auto

lemma sorted_concat_buckets:
  "distinct ts \<Longrightarrow>
   sorted_wrt (\<lambda>a b. index_of (f a) ts \<le> index_of (f b) ts)
     (concat (map (\<lambda>u. filter (\<lambda>s. f s = u) xs) ts))"
proof (induction ts)
  case Nil
  then show ?case by simp
next
  case (Cons u ts)
  let ?rest = "concat (map (\<lambda>u. filter (\<lambda>s. f s = u) xs) ts)"
  let ?R = "\<lambda>a b. index_of (f a) (u # ts) \<le> index_of (f b) (u # ts)"
  have u: "u \<notin> set ts" and d: "distinct ts" using Cons.prems by auto
  have rest: "\<And>s. s \<in> set ?rest \<Longrightarrow> f s \<noteq> u"
    using u by (auto simp: set_concat_buckets)
  have "sorted_wrt (\<lambda>a b. index_of (f a) ts \<le> index_of (f b) ts) ?rest"
    using Cons.IH d by simp
  then have 1: "sorted_wrt ?R ?rest"
    by (rule sorted_wrt_mono_rel[rotated]) (use rest in auto)
  have 2: "sorted_wrt ?R (filter (\<lambda>s. f s = u) xs)"
    by (rule sorted_wrt_mono_rel[of _ "\<lambda>_ _. True"]) (auto simp: sorted_wrt_true)
  have 3: "\<forall>a\<in>set (filter (\<lambda>s. f s = u) xs). \<forall>b\<in>set ?rest. ?R a b"
    by auto
  show ?case using 1 2 3 by (simp add: sorted_wrt_append)
qed

lemma distinct_section_order: "distinct section_order"
  by (simp add: section_order_def)

lemma set_section_order: "t \<in> set section_order \<longleftrightarrow> t \<noteq> UNKNOWN"
  by (cases t) (simp_all add: section_order_def)

lemma set_reorder_sections:
  "set (reorder_sections secs) = {s \<in> set secs. sec_type s \<noteq> UNKNOWN}"
  by (simp only: reorder_sections_eq set_concat_buckets set_section_order)

text \<open>
  Claim C5: canonical reordering is a stable bucket sort into the sixteen slots of
  \<open>section_order\<close>. The output is ordered by slot, so two sections of different
  canonical types stand in the fixed relative order; and for every canonical type the
  sections of that type in the output are exactly those of the input, in input order
  (nothing for a type that is absent, and nothing for the type Unknown, which has no slot).
\<close>

theorem reorder_sections_stable_bucket_sort:
  "sorted_wrt (\<lambda>a b. index_of (sec_type a) section_order \<le> index_of (sec_type b) section_order)
     (reorder_sections secs)
   \<and> filter (\<lambda>s. sec_type s = t) (reorder_sections secs) =
       (if t \<in> set section_order then filter (\<lambda>s. sec_type s = t) secs else [])"
  using sorted_concat_buckets[OF distinct_section_order, of sec_type secs]
        filter_concat_buckets[OF distinct_section_order, of sec_type t secs]
  by (simp only: reorder_sections_eq)

section \<open>Compliance score\<close>










section \<open>Sections through the formatting pipeline\<close>

lemma sec_id_set [simp]:
  "sec_id (set_content c s) = sec_id s"
  "sec_id (set_formatted_heading fh s) = sec_id s"
  "sec_id (set_font_rule fr s) = sec_id s"
  "sec_id (set_heading_font_rule hfr s) = sec_id s"
  "sec_id (set_subsections subs s) = sec_id s"
  by (cases s; simp)+

lemma sec_type_set [simp]:
  "sec_type (set_content c s) = sec_type s"
  "sec_type (set_formatted_heading fh s) = sec_type s"
  "sec_type (set_font_rule fr s) = sec_type s"
  "sec_type (set_heading_font_rule hfr s) = sec_type s"
  "sec_type (set_subsections subs s) = sec_type s"
  by (cases s; simp)+

lemma ident_apply_font_rules: "ident (apply_font_rules s) = ident s"
  by (simp add: ident_def apply_font_rules_def split: option.splits)

lemma ident_convert_intext: "ident (fst (convert_intext_citations s st)) = ident s"
  by (simp add: ident_def convert_intext_citations_def Let_def split: prod.splits)

lemma ident_convert_loop:
  "map ident (fst (convert_loop r cits i secs st)) = map ident secs"
proof (induction secs arbitrary: i st)
  case Nil
  then show ?case by simp
next
  case (Cons s secs)
  show ?case
  proof (cases "i = r")
    case True
    then show ?thesis using Cons.IH[of "i + 1" st]
      by (simp add: split_beta ident_def)
  next
    case False
    then show ?thesis
      using Cons.IH[of "i + 1" "snd (convert_intext_citations s st)"] ident_convert_intext[of s st]
      by (simp add: split_beta)
  qed
qed

lemma ident_convert_references:
  "map ident (fst (convert_references secs st)) = map ident secs"
  by (simp add: convert_references_def Let_def ident_convert_loop split: option.splits prod.splits)

lemma sec_id_number_main_section: "sec_id (number_main_section n s) = sec_id s"
  by (simp add: number_main_section_def Let_def split: option.splits)

lemma sec_id_head_plain_section: "sec_id (head_plain_section s) = sec_id s"
  by (simp add: head_plain_section_def)

lemma sec_id_numbering_loop: "map sec_id (numbering_loop n secs) = map sec_id secs"
  by (induction secs arbitrary: n)
     (simp_all add: sec_id_number_main_section sec_id_head_plain_section)

lemma sections_format:
  "sections (format document) =
     apply_numbering (reorder_sections
       (fst (convert_references (map apply_font_rules (sections document)) new_converter)))"
  by (simp add: format_def Let_def split_beta)

text \<open>
  Claim C3 says that every section given to the formatting engine, of any type including
  Unknown, has a section with the same id in the formatted document. \<open>reorder_sections\<close>
  collects the buckets of the sixteen canonical types only, and its comments say that
  Unknown sections are left out of the main ordering; so the claim holds for the sections
  of a canonical type: each of them has a section with the same id in the output.
\<close>

theorem format_keeps_classified_sections:
  assumes "s \<in> set (sections document)" and "sec_type s \<noteq> UNKNOWN"
  shows "sec_id s \<in> sec_id ` set (sections (format document))"
proof -
  let ?conv = "fst (convert_references (map apply_font_rules (sections document)) new_converter)"
  have "map ident ?conv = map ident (sections document)"
    by (simp add: ident_convert_references ident_apply_font_rules)
  then have "ident s \<in> set (map ident ?conv)"
    using assms(1) by simp
  then obtain b where b: "b \<in> set ?conv" "ident b = ident s"
    by auto
  then have "b \<in> set (reorder_sections ?conv)"
    using assms(2) by (simp add: set_reorder_sections ident_def)
  then have "sec_id b \<in> set (map sec_id (reorder_sections ?conv))"
    by simp
  then have "sec_id b \<in> set (map sec_id (sections (format document)))"
    by (simp only: sections_format apply_numbering_def sec_id_numbering_loop)
  then show ?thesis using b(2) by (simp add: ident_def)
qed

theorem format_keeps_classified_sections_witness:
  "ex_intro \<in> set (sections (ex_doc [ex_title, ex_unknown, ex_intro]))
   \<and> sec_type ex_intro \<noteq> UNKNOWN
   \<and> sec_id ex_intro \<in> sec_id ` set (sections (format (ex_doc [ex_title, ex_unknown, ex_intro])))"
proof -
  have 1: "ex_intro \<in> set (sections (ex_doc [ex_title, ex_unknown, ex_intro]))"
    by (simp add: ex_doc_def)
  have 2: "sec_type ex_intro \<noteq> UNKNOWN"
    by (simp add: ex_intro_def plain_section_def)
  show ?thesis using 1 2 format_keeps_classified_sections[OF 1 2] by simp
qed

text \<open>
  The Unknown section of the same document is not in the output: only the ids of the
  Title and of the Introduction are.
\<close>

theorem format_drops_unknown_section:
  "map sec_id (sections (ex_doc [ex_title, ex_unknown, ex_intro])) = [''s0'', ''s3'', ''s1'']
   \<and> map sec_id (sections (format (ex_doc [ex_title, ex_unknown, ex_intro]))) = [''s0'', ''s1'']"
  by code_simp

section \<open>Word counts after citation rewriting\<close>

text \<open>
  Claim C4: in every document state, after citation rewriting too, the \<open>word_count\<close> of a
  section is the number of blank-separated tokens of its content. \<open>convert_references\<close>
  writes a new content and leaves \<open>word_count\<close> as it was. In the document below both
  sections satisfy the invariant before the conversion (5 and 4 tokens); afterwards the
  Introduction holds 4 tokens under a count of 5 and the References hold 5 under a count
  of 4.
\<close>

theorem convert_references_leaves_word_count_stale:
  "map (\<lambda>s. (word_count s, int (length (split_ws (content s))))) [ex_intro, ex_refs1]
     = [(5, 5), (4, 4)]
   \<and> map (\<lambda>s. (word_count s, int (length (split_ws (content s)))))
       (fst (convert_references [ex_intro, ex_refs1] new_converter))
     = [(5, 4), (4, 5)]"
  by code_simp

section \<open>Citation numbering\<close>






section \<open>Segmentation of the References body\<close>

lemma segment_lines_emptyD:
  "segment_lines ls cur cits = [] \<Longrightarrow> cur = [] \<and> cits = []"
proof (induction ls arbitrary: cur cits)
  case Nil
  then show ?case by (simp split: if_splits)
next
  case (Cons l ls)
  show ?case
  proof (cases "strip l = []")
    case True
    then show ?thesis using Cons.prems Cons.IH[of "[]" "cits @ [join '' '' cur]"] Cons.IH[of cur cits]
      by (cases "cur = []") (simp_all add: Let_def)
  next
    case False
    then show ?thesis
      using Cons.prems Cons.IH[of "[remove_citation_prefix (strip l)]" "cits @ [join '' '' cur]"]
        Cons.IH[of "cur @ [remove_citation_prefix (strip l)]" cits] Cons.IH[of "cur @ [strip l]" cits]
      by (cases "is_citation_start (strip l)"; cases "cur = []") (simp_all add: Let_def)
  qed
qed

lemma segment_lines_empty_blank:
  "segment_lines ls [] [] = [] \<Longrightarrow> l \<in> set ls \<Longrightarrow> strip l = []"
proof (induction ls)
  case Nil
  then show ?case by simp
next
  case (Cons a ls)
  show ?case
  proof (cases "strip a = []")
    case True
    then show ?thesis using Cons by (auto simp: Let_def)
  next
    case False
    then have "segment_lines (a # ls) [] [] \<noteq> []"
      by (auto simp: Let_def dest: segment_lines_emptyD)
    then show ?thesis using Cons.prems by simp
  qed
qed

lemma strip_empty_iff: "strip s = [] \<longleftrightarrow> (\<forall>c\<in>set s. is_space c)"
proof
  assume "strip s = []"
  then have all: "\<forall>c\<in>set (dropWhile is_space s). is_space c"
    by (simp add: strip_def rstrip_def lstrip_def dropWhile_eq_Nil_conv)
  have "dropWhile is_space s = []"
  proof (rule ccontr)
    assume ne: "dropWhile is_space s \<noteq> []"
    then have "\<not> is_space (hd (dropWhile is_space s))" by (rule hd_dropWhile)
    moreover have "hd (dropWhile is_space s) \<in> set (dropWhile is_space s)" using ne by simp
    ultimately show False using all by blast
  qed
  then show "\<forall>c\<in>set s. is_space c" by (simp add: dropWhile_eq_Nil_conv)
next
  assume "\<forall>c\<in>set s. is_space c"
  then have d: "dropWhile is_space s = []" by (simp add: dropWhile_eq_Nil_conv)
  show "strip s = []" unfolding strip_def rstrip_def lstrip_def d by simp
qed

lemma split_on_nonempty: "split_on sep s \<noteq> []"
  by (induction s) (auto split: list.splits)

lemma set_split_on: "c \<in> set s \<Longrightarrow> c = sep \<or> (\<exists>l\<in>set (split_on sep s). c \<in> set l)"
proof (induction s)
  case Nil
  then show ?case by simp
next
  case (Cons a s)
  then show ?case
    by (cases "split_on sep s") (auto simp: split_on_nonempty)
qed

lemma is_space_newline: "is_space (CHR 0x0A)"
  by (simp add: is_space_def)

lemma extract_citations_is_segmentation:
  "extract_citations body = segment_lines (split_on CHR 0x0A body) [] []"
proof (cases "segment_lines (split_on CHR 0x0A body) [] [] = []")
  case True
  have "\<forall>c\<in>set body. is_space c"
  proof
    fix c assume "c \<in> set body"
    then consider "c = CHR 0x0A" | l where "l \<in> set (split_on CHR 0x0A body)" "c \<in> set l"
      using set_split_on by blast
    then show "is_space c"
    proof cases
      case 1 then show ?thesis by (simp add: is_space_newline)
    next
      case 2
      then have "strip l = []" using True segment_lines_empty_blank by blast
      then show ?thesis using 2 by (simp add: strip_empty_iff)
    qed
  qed
  then have "strip body = []" by (simp add: strip_empty_iff)
  then show ?thesis using True by (simp add: extract_citations_def)
next
  case False
  then show ?thesis by (simp add: extract_citations_def)
qed

lemma find_references_None:
  "(\<forall>s\<in>set secs. sec_type s \<noteq> REFERENCES) \<Longrightarrow> find_references i secs = None"
  by (induction secs arbitrary: i) auto

text \<open>
  Claim C8: the converter never raises; without a References section
  \<open>convert_references\<close> returns its input unchanged; and a non-empty References body none
  of whose lines matches an entry-start pattern goes through the sentence-split fallback.
  No function of the model has an error result, as no statement of the source can raise
  on a string or a list of sections, and the no-op holds as stated. The fallback is
  guarded by "the line loop found no entry and the body is not blank"; a line that starts
  no entry continues or opens an entry, so the loop finds an entry in every body that has
  a non-blank line, and the result of \<open>_extract_citations\<close> is always that of the line loop.
\<close>

theorem convert_references_no_op_and_line_segmentation:
  "((\<forall>s\<in>set secs. sec_type s \<noteq> REFERENCES) \<longrightarrow> convert_references secs st = (secs, st))
   \<and> extract_citations body = segment_lines (split_on CHR 0x0A body) [] []"
  by (simp add: convert_references_def find_references_None extract_citations_is_segmentation)

theorem convert_references_no_op_and_line_segmentation_witness:
  "sec_type ex_intro \<noteq> REFERENCES
   \<and> convert_references [ex_intro] new_converter = ([ex_intro], new_converter)
   \<and> extract_citations ''hello world. Next one'' = [''hello world. Next one'']"
proof -
  have 1: "sec_type ex_intro \<noteq> REFERENCES"
    by (simp add: ex_intro_def plain_section_def)
  have 2: "segment_lines (split_on CHR 0x0A ''hello world. Next one'') [] []
             = [''hello world. Next one'']"
    by code_simp
  show ?thesis
    using convert_references_no_op_and_line_segmentation
            [of "[ex_intro]" new_converter "''hello world. Next one''"] 1 2
    by simp
qed

text \<open>
  A body of one line that starts no entry: the result is the line itself, not the two
  sentences (each with its full stop) that the fallback would give.
\<close>

theorem fallback_not_applied_without_entry_start:
  "strip ''hello world. Next one'' \<noteq> []
   \<and> list_all (\<lambda>l. \<not> is_citation_start (strip l)) (split_on CHR 0x0A ''hello world. Next one'')
   \<and> extract_citations ''hello world. Next one'' = [''hello world. Next one'']
   \<and> sentence_fallback ''hello world. Next one'' = [''hello world.'', ''Next one.'']"
  by code_simp

section \<open>Change tracker\<close>

lemma keys_positions: "fst ` set (positions i secs d) = fst ` set d \<union> sec_id ` set secs"
  by (induction secs arbitrary: i d) (auto simp: keys_dict_set)

lemma keys_by_id: "fst ` set (by_id secs d) = fst ` set d \<union> sec_id ` set secs"
  by (induction secs arbitrary: d) (auto simp: keys_dict_set)

lemma fix_section_id_reordering_fix: "fix_section_id (reordering_fix i p q x) = i"
  by (simp add: reordering_fix_def)

lemma reordering_loop_ids:
  "list_all (\<lambda>f. fix_section_id f \<in> fst ` set bp) (reordering_loop ap bp secs)"
proof (induction ap)
  case Nil
  then show ?case by simp
next
  case (Cons a ap)
  obtain section_id after_pos where a: "a = (section_id, after_pos)" by (cases a)
  show ?case
  proof (cases "map_of bp section_id")
    case None
    then show ?thesis unfolding a using Cons.IH by simp
  next
    case (Some before_pos)
    then have "section_id \<in> fst ` set bp" by (rule map_of_SomeD_key)
    then show ?thesis unfolding a using Cons.IH Some
      by (simp add: fix_section_id_reordering_fix split: option.split)
  qed
qed

lemma track_ids:
  "\<forall>f\<in>set (track_heading_changes b a). fix_section_id f = sec_id a"
  "\<forall>f\<in>set (track_font_changes b a). fix_section_id f = sec_id a"
  "\<forall>f\<in>set (track_content_changes b a). fix_section_id f = sec_id a"
  "\<forall>f\<in>set (track_section_type_changes b a). fix_section_id f = sec_id a"
  by (auto simp: track_heading_changes_def track_font_changes_def track_content_changes_def
        track_section_type_changes_def Let_def split: option.split)

lemma section_loop_ids:
  "list_all (\<lambda>f. fix_section_id f \<in> fst ` set d) (section_loop d secs)"
proof (induction secs)
  case Nil
  then show ?case by simp
next
  case (Cons a secs)
  show ?case
  proof (cases "map_of d (sec_id a)")
    case None
    then show ?thesis using Cons by simp
  next
    case (Some b)
    then have k: "sec_id a \<in> fst ` set d" by (rule map_of_SomeD_key)
    have t: "list_all (\<lambda>f. fix_section_id f \<in> fst ` set d) xs"
      if "\<forall>f\<in>set xs. fix_section_id f = sec_id a" for xs
      using that k by (simp add: list_all_iff)
    show ?thesis using Cons Some track_ids[of b a] by (simp add: t)
  qed
qed

lemma track_changes_ids:
  "f \<in> set (track_changes document_before document_after)
   \<Longrightarrow> fix_section_id f \<in> sec_id ` set (sections document_before)"
  using reordering_loop_ids[where ap = "positions 0 (sections document_after) []"
          and bp = "positions 0 (sections document_before) []" and secs = "sections document_after"]
        section_loop_ids[of "by_id (sections document_before) []" "sections document_after"]
  by (auto simp: track_changes_def track_section_reordering_def keys_positions keys_by_id
        list_all_iff)

text \<open>
  Claim C9: a section of the after document whose id is the id of no section of the
  before document has no Fix record, of any kind, \<open>section_reordering\<close> included.
\<close>

theorem new_section_yields_no_fix:
  assumes "s \<in> set (sections document_after)"
    and "sec_id s \<notin> sec_id ` set (sections document_before)"
  shows "filter (\<lambda>f. fix_section_id f = sec_id s) (track_changes document_before document_after) = []"
proof -
  have "fix_section_id f \<noteq> sec_id s" if "f \<in> set (track_changes document_before document_after)" for f
    using track_changes_ids[OF that] assms(2) by auto
  then show ?thesis by (auto simp: filter_empty_conv)
qed

theorem new_section_yields_no_fix_witness:
  "ex_results \<in> set (sections (ex_doc [ex_results, ex_title, ex_intro]))
   \<and> sec_id ex_results \<notin> sec_id ` set (sections (ex_doc [ex_intro, ex_title]))
   \<and> filter (\<lambda>f. fix_section_id f = sec_id ex_results)
        (track_changes (ex_doc [ex_intro, ex_title]) (ex_doc [ex_results, ex_title, ex_intro])) = []
   \<and> map fix_section_id
        (track_changes (ex_doc [ex_intro, ex_title]) (ex_doc [ex_results, ex_title, ex_intro]))
       = [''s1'']"
proof -
  have 1: "ex_results \<in> set (sections (ex_doc [ex_results, ex_title, ex_intro]))"
    by (simp add: ex_doc_def)
  have 2: "sec_id ex_results \<notin> sec_id ` set (sections (ex_doc [ex_intro, ex_title]))"
    by (simp add: ex_doc_def ex_results_def ex_intro_def ex_title_def plain_section_def)
  have 3: "map fix_section_id
        (track_changes (ex_doc [ex_intro, ex_title]) (ex_doc [ex_results, ex_title, ex_intro]))
       = [''s1'']"
    by code_simp
  show ?thesis using 1 2 3 new_section_yields_no_fix[OF 1 2] by simp
qed

section \<open>Abstract compliance\<close>

lemma find_filter_None: "find P xs = None \<Longrightarrow> filter P xs = []"
  by (induction xs) (auto split: if_splits)

lemma find_filter_Some:
  "find P xs = Some a \<Longrightarrow> filter P xs = a # filter P (tl (dropWhile (\<lambda>x. \<not> P x) xs))"
  by (induction xs) (auto split: if_splits)

lemma abstract_component_calculate:
  "component (breakdown (calculate document issues)) ''abstract_compliance''
     = score_abstract_compliance document"
  by (simp add: calculate_def Let_def component_def)

text \<open>
  Claim C7: the abstract-compliance component of the score is 1 when the first Abstract
  has a word count of exactly 150 or exactly 250, 6/10 when it is exactly 149 or exactly
  251, and 0 when the document has no Abstract.
\<close>

theorem abstract_compliance_boundaries:
  "(case find (\<lambda>s. sec_type s = ABSTRACT) (sections document) of
      None \<Rightarrow> component (breakdown (calculate document issues)) ''abstract_compliance'' = 0
    | Some abstract \<Rightarrow>
        (word_count abstract = 150 \<or> word_count abstract = 250 \<longrightarrow>
           component (breakdown (calculate document issues)) ''abstract_compliance'' = 1)
      \<and> (word_count abstract = 149 \<or> word_count abstract = 251 \<longrightarrow>
           component (breakdown (calculate document issues)) ''abstract_compliance'' = 6 / 10))"
  by (auto simp: abstract_component_calculate score_abstract_compliance_def
        ABSTRACT_MIN_WORDS_def ABSTRACT_MAX_WORDS_def
        dest: find_filter_None find_filter_Some split: option.splits)

theorem abstract_compliance_boundaries_witness:
  "map (\<lambda>d. component (breakdown (calculate d [])) ''abstract_compliance'')
     [ex_doc [ex_title, ex_abstract ''a'' 150], ex_doc [ex_title, ex_abstract ''a'' 250],
      ex_doc [ex_title, ex_abstract ''a'' 149], ex_doc [ex_title, ex_abstract ''a'' 251],
      ex_doc [ex_title]]
   = [1, 1, 6 / 10, 6 / 10, 0]"
proof -
  have f: "find (\<lambda>s. sec_type s = ABSTRACT) (sections (ex_doc [ex_title, ex_abstract ''a'' n]))
             = Some (ex_abstract ''a'' n)" for n
    by (simp add: ex_doc_def ex_title_def ex_abstract_def plain_section_def)
  have w: "word_count (ex_abstract ''a'' n) = n" for n
    by (simp add: ex_abstract_def plain_section_def)
  have n: "find (\<lambda>s. sec_type s = ABSTRACT) (sections (ex_doc [ex_title])) = None"
    by (simp add: ex_doc_def ex_title_def plain_section_def)
  show ?thesis
    using abstract_compliance_boundaries[of "ex_doc [ex_title, ex_abstract ''a'' 150]" "[]"]
          abstract_compliance_boundaries[of "ex_doc [ex_title, ex_abstract ''a'' 250]" "[]"]
          abstract_compliance_boundaries[of "ex_doc [ex_title, ex_abstract ''a'' 149]" "[]"]
          abstract_compliance_boundaries[of "ex_doc [ex_title, ex_abstract ''a'' 251]" "[]"]
          abstract_compliance_boundaries[of "ex_doc [ex_title]" "[]"]
    by (simp add: f w n)
qed

lemma abstract_loop_eq:
  "abstract_loop secs =
     map (\<lambda>s. word_count_issue (word_count s))
       (filter (\<lambda>s. word_count s < ABSTRACT_MIN_WORDS \<or> word_count s > ABSTRACT_MAX_WORDS) secs)"
  by (induction secs) auto

lemma detect_abstract_eq:
  "detect_abstract_word_count_issues document =
     map (\<lambda>s. word_count_issue (word_count s))
       (filter (\<lambda>s. sec_type s = ABSTRACT \<and> (word_count s < 150 \<or> word_count s > 250))
          (sections document))"
  by (simp add: detect_abstract_word_count_issues_def Let_def abstract_loop_eq
      ABSTRACT_MIN_WORDS_def ABSTRACT_MAX_WORDS_def conj_commute filter_empty_conv)

lemma issue_type_out_of_order_issue:
  "issue_type (out_of_order_issue x p) = ''section_out_of_order''"
  by (simp add: out_of_order_issue_def)

lemma order_loop_types:
  "list_all (\<lambda>i. issue_type i = ''section_out_of_order'') (order_loop lp secs)"
proof (induction secs arbitrary: lp)
  case Nil
  then show ?case by simp
next
  case (Cons s secs)
  show ?case
    by (simp add: Let_def Cons.IH issue_type_out_of_order_issue split: list.split)
qed

lemma filter_abstract_issues:
  "filter (\<lambda>i. issue_type i = ''abstract_word_count_violation'') (detect_issues document)
     = detect_abstract_word_count_issues document"
proof -
  have 1: "filter (\<lambda>i. issue_type i = ''abstract_word_count_violation'') (detect_missing_sections document) = []"
    by (simp add: detect_missing_sections_def filter_empty_conv)
  have 2: "filter (\<lambda>i. issue_type i = ''abstract_word_count_violation'') (detect_section_order_issues document) = []"
    using order_loop_types[of "- 1" "sections document"]
    by (auto simp: detect_section_order_issues_def filter_empty_conv list_all_iff)
  have 3: "filter (\<lambda>i. issue_type i = ''abstract_word_count_violation'') (detect_missing_headings document) = []"
    by (simp add: detect_missing_headings_def filter_empty_conv)
  have 4: "filter (\<lambda>i. issue_type i = ''abstract_word_count_violation'') (detect_abstract_word_count_issues document)
      = detect_abstract_word_count_issues document"
    by (simp add: detect_abstract_eq word_count_issue_def filter_id_conv)
  show ?thesis by (simp add: detect_issues_def 1 2 3 4)
qed

text \<open>
  Claim C10: with several Abstract sections, the abstract-compliance component depends
  on the word count of the first Abstract in document order only (two documents whose
  first Abstracts have the same word count get the same component, whatever else they
  hold), while the issue detector reports one word-count issue for each Abstract whose
  word count is below 150 or above 250, in document order.
\<close>

theorem first_abstract_scores_every_abstract_reported:
  "(find (\<lambda>s. sec_type s = ABSTRACT) (sections d1) = Some a
      \<and> find (\<lambda>s. sec_type s = ABSTRACT) (sections d2) = Some b
      \<and> word_count a = word_count b
    \<longrightarrow> component (breakdown (calculate d1 issues1)) ''abstract_compliance''
        = component (breakdown (calculate d2 issues2)) ''abstract_compliance'')
   \<and> map current (filter (\<lambda>i. issue_type i = ''abstract_word_count_violation'') (detect_issues d1))
       = map (\<lambda>s. PyInt (word_count s))
           (filter (\<lambda>s. sec_type s = ABSTRACT \<and> (word_count s < 150 \<or> word_count s > 250))
              (sections d1))"
  by (auto simp: abstract_component_calculate score_abstract_compliance_def filter_abstract_issues
       detect_abstract_eq word_count_issue_def comp_def dest!: find_filter_Some)

theorem first_abstract_scores_every_abstract_reported_witness:
  "find (\<lambda>s. sec_type s = ABSTRACT)
        (sections (ex_doc [ex_title, ex_abstract ''a1'' 200, ex_abstract ''a2'' 10, ex_abstract ''a3'' 300]))
     = Some (ex_abstract ''a1'' 200)
   \<and> find (\<lambda>s. sec_type s = ABSTRACT) (sections (ex_doc [ex_abstract ''a1'' 200]))
     = Some (ex_abstract ''a1'' 200)
   \<and> component (breakdown (calculate
         (ex_doc [ex_title, ex_abstract ''a1'' 200, ex_abstract ''a2'' 10, ex_abstract ''a3'' 300]) []))
       ''abstract_compliance''
     = component (breakdown (calculate (ex_doc [ex_abstract ''a1'' 200]) [])) ''abstract_compliance''
   \<and> map current (filter (\<lambda>i. issue_type i = ''abstract_word_count_violation'')
        (detect_issues (ex_doc [ex_title, ex_abstract ''a1'' 200, ex_abstract ''a2'' 10,
                                ex_abstract ''a3'' 300])))
     = [PyInt 10, PyInt 300]"
proof -
  let ?d1 = "ex_doc [ex_title, ex_abstract ''a1'' 200, ex_abstract ''a2'' 10, ex_abstract ''a3'' 300]"
  let ?d2 = "ex_doc [ex_abstract ''a1'' 200]"
  have 1: "find (\<lambda>s. sec_type s = ABSTRACT) (sections ?d1) = Some (ex_abstract ''a1'' 200)"
    by (simp add: ex_doc_def ex_title_def ex_abstract_def plain_section_def)
  have 2: "find (\<lambda>s. sec_type s = ABSTRACT) (sections ?d2) = Some (ex_abstract ''a1'' 200)"
    by (simp add: ex_doc_def ex_abstract_def plain_section_def)
  have 3: "map (\<lambda>s. PyInt (word_count s))
           (filter (\<lambda>s. sec_type s = ABSTRACT \<and> (word_count s < 150 \<or> word_count s > 250))
              (sections ?d1)) = [PyInt 10, PyInt 300]"
    by (simp add: ex_doc_def ex_title_def ex_abstract_def plain_section_def)
  show ?thesis
    using first_abstract_scores_every_abstract_reported
            [of ?d1 "ex_abstract ''a1'' 200" ?d2 "ex_abstract ''a1'' 200" "[]" "[]"] 1 2 3
    by simp
qed

section \<open>Examples of the claims that hold for every input\<close>

theorem reorder_sections_example:
  "map sec_id (reorder_sections [ex_results, ex_intro, ex_unknown, ex_abstract ''a'' 200])
     = [''a'', ''s1'', ''s5'']"
  by code_simp

theorem compliance_score_example:
  "score (calculate (format (ex_doc [ex_title, ex_abstract ''a'' 200, ex_intro, ex_refs1]))
            (detect_issues (ex_doc [ex_title, ex_abstract ''a'' 200, ex_intro, ex_refs1])))
     = 7486 / 100"
  by code_simp

end
